theory Spec2Isabelle
  imports Main
begin

section \<open>Python values and built-ins used by main.py\<close>

text \<open>
  An exception object: its class name, its \<^verbatim>\<open>message\<close> attribute when it has one
  (\<^verbatim>\<open>hasattr(e, 'message')\<close> is \<open>exn_message e \<noteq> None\<close>; errors of
  \<^verbatim>\<open>GoogleAPICallError\<close> carry one, the built-in exceptions of Python 3 do not) and
  the text of \<^verbatim>\<open>str(e)\<close>. Every exception of the model is a subclass of
  \<^verbatim>\<open>Exception\<close>, so \<^verbatim>\<open>except Exception\<close> catches it.
\<close>

datatype exn = Exn (exn_class: string) (exn_message: "string option") (exn_str: string)

text \<open>
  The value of a field of the JSON request body. Arrays, objects and floating-point
  numbers as field values are outside the model; strings are taken over ASCII.
\<close>

datatype json = JNull | JBool bool | JInt int | JStr string

definition digit_char :: "nat \<Rightarrow> char" where
  "digit_char d = ''0123456789abcdef'' ! d"

fun show_nat :: "nat \<Rightarrow> string" where
  "show_nat n = (if n < 10 then [digit_char n] else show_nat (n div 10) @ [digit_char (n mod 10)])"

declare show_nat.simps [simp del]

definition show_int :: "int \<Rightarrow> string" where
  "show_int i = (if i < 0 then CHR ''-'' # show_nat (nat (- i)) else show_nat (nat i))"

text \<open>\<^verbatim>\<open>str(v)\<close>, as the f-strings and \<^verbatim>\<open>str.format\<close> apply it.\<close>

fun py_str :: "json \<Rightarrow> string" where
  "py_str JNull = ''None''"
| "py_str (JBool b) = (if b then ''True'' else ''False'')"
| "py_str (JInt i) = show_int i"
| "py_str (JStr s) = s"

text \<open>\<^verbatim>\<open>repr(s)\<close> of a string, which the message of int()'s ValueError quotes.\<close>

definition repr_char :: "char \<Rightarrow> char \<Rightarrow> string" where
  "repr_char q c =
     (if c = q \<or> c = CHR 0x5C then [CHR 0x5C, c]
      else if c = CHR 0x09 then [CHR 0x5C, CHR ''t'']
      else if c = CHR 0x0A then [CHR 0x5C, CHR ''n'']
      else if c = CHR 0x0D then [CHR 0x5C, CHR ''r'']
      else if (of_char c :: nat) < 32 \<or> (of_char c :: nat) = 127
        then [CHR 0x5C, CHR ''x'', digit_char ((of_char c :: nat) div 16),
              digit_char ((of_char c :: nat) mod 16)]
      else [c])"

definition py_repr :: "string \<Rightarrow> string" where
  "py_repr s =
     (let q = (if CHR 0x27 \<in> set s \<and> CHR 0x22 \<notin> set s then CHR 0x22 else CHR 0x27)
      in q # concat (map (repr_char q) s) @ [q])"

text \<open>
  \<^verbatim>\<open>int(v)\<close>. On a string: surrounding whitespace is stripped, one sign is allowed,
  then decimal digits, with single underscores between digits. The interpreter's limit on
  the number of digits is not modelled.
\<close>

definition is_space :: "char \<Rightarrow> bool" where
  "is_space c = (c = CHR '' '' \<or> ((9::nat) \<le> of_char c \<and> (of_char c :: nat) \<le> 13)
                 \<or> ((28::nat) \<le> of_char c \<and> (of_char c :: nat) \<le> 31))"

definition is_digit :: "char \<Rightarrow> bool" where
  "is_digit c = ((48::nat) \<le> of_char c \<and> (of_char c :: nat) \<le> 57)"

definition strip :: "string \<Rightarrow> string" where
  "strip s = rev (dropWhile is_space (rev (dropWhile is_space s)))"

text \<open>The digits after the sign: \<open>None\<close> where int() rejects the literal.\<close>

fun digits_value :: "string \<Rightarrow> nat \<Rightarrow> nat option" where
  "digits_value [] acc = Some acc"
| "digits_value [c] acc =
     (if is_digit c then Some (10 * acc + (of_char c - 48)) else None)"
| "digits_value (c # d # cs) acc =
     (if is_digit c then
        (if d = CHR ''_'' then
           (case cs of [] \<Rightarrow> None
            | e # _ \<Rightarrow> if is_digit e then digits_value cs (10 * acc + (of_char c - 48)) else None)
         else digits_value (d # cs) (10 * acc + (of_char c - 48)))
      else None)"

definition int_of_str :: "string \<Rightarrow> exn + int" where
  "int_of_str s =
     (let t = strip s;
          neg = (case t of c # _ \<Rightarrow> c = CHR ''-'' | [] \<Rightarrow> False);
          ds = (case t of c # r \<Rightarrow> if c = CHR ''-'' \<or> c = CHR ''+'' then r else t | [] \<Rightarrow> t)
      in case (if ds = [] then None else digits_value ds 0) of
           None \<Rightarrow> Inl (Exn ''ValueError'' None
                     (''invalid literal for int() with base 10: '' @ py_repr s))
         | Some n \<Rightarrow> Inr (if neg then - int n else int n))"

fun py_int :: "json \<Rightarrow> exn + int" where
  "py_int (JInt i) = Inr i"
| "py_int (JBool b) = Inr (if b then 1 else 0)"
| "py_int (JStr s) = int_of_str s"
| "py_int JNull = Inl (Exn ''TypeError'' None
     (''int() argument must be a string, a bytes-like object or a real number, not ''
        @ [CHR 0x27] @ ''NoneType'' @ [CHR 0x27]))"

text \<open>
  Reading \<^verbatim>\<open>e.message\<close>: an AttributeError where the object has no such attribute.
\<close>

definition get_message :: "exn \<Rightarrow> exn + string" where
  "get_message e =
     (case exn_message e of
        Some m \<Rightarrow> Inr m
      | None \<Rightarrow> Inl (Exn ''AttributeError'' None
          ([CHR 0x27] @ exn_class e @ [CHR 0x27] @ '' object has no attribute ''
             @ [CHR 0x27] @ ''message'' @ [CHR 0x27])))"

section \<open>Reservation names\<close>

text \<open>
  \<^verbatim>\<open>datetime.today()\<close> as a record of its fields, and the random generator as the
  sequence of its draws: \<^verbatim>\<open>random.choice(seq)\<close> at draw \<open>i\<close> picks
  \<open>seq ! (rng i mod length seq)\<close>.
\<close>

record datetime =
  year :: nat
  month :: nat
  day :: nat
  hour :: nat
  minute :: nat
  second :: nat

definition ascii_lowercase :: string where
  "ascii_lowercase = ''abcdefghijklmnopqrstuvwxyz''"

definition get_random_string :: "(nat \<Rightarrow> nat) \<Rightarrow> nat \<Rightarrow> string" where
  "get_random_string rng len = map (\<lambda>i. ascii_lowercase ! (rng i mod 26)) [0..<len]"

definition pad2 :: "nat \<Rightarrow> string" where
  "pad2 n = (if n < 10 then CHR ''0'' # show_nat n else show_nat n)"

text \<open>\<^verbatim>\<open>strftime('reservation-%Y%m%d-%H%M%S%M')\<close>: the minute is printed twice.\<close>

definition strftime_reservation :: "datetime \<Rightarrow> string" where
  "strftime_reservation t =
     ''reservation-'' @ show_nat (year t) @ pad2 (month t) @ pad2 (day t) @ ''-''
       @ pad2 (hour t) @ pad2 (minute t) @ pad2 (second t) @ pad2 (minute t)"

definition get_reservation_name :: "datetime \<Rightarrow> (nat \<Rightarrow> nat) \<Rightarrow> string" where
  "get_reservation_name today rng = strftime_reservation today @ ''-'' @ get_random_string rng 8"

text \<open>
  What executing the module's \<^verbatim>\<open>def\<close> statements leaves behind. Python evaluates the
  default of a parameter once, when the \<^verbatim>\<open>def\<close> is executed, so the default
  \<^verbatim>\<open>reservation_name: str = get_reservation_name()\<close> of
  \<^verbatim>\<open>create_reservation_and_assignment\<close> is a string bound at import, from the clock
  and the generator of that moment.
\<close>

record loaded_module =
  default_reservation_name :: string

definition load_module :: "datetime \<Rightarrow> (nat \<Rightarrow> nat) \<Rightarrow> loaded_module" where
  "load_module today rng = \<lparr>default_reservation_name = get_reservation_name today rng\<rparr>"

section \<open>The reservation service client\<close>

record commitment =
  cc_name :: string
  cc_plan :: string
  cc_slot_count :: int

record reservation =
  res_name :: string
  res_slot_capacity :: int
  res_ignore_idle_slots :: bool

record assignment =
  asg_name :: string
  asg_job_type :: string
  asg_assignee :: string

text \<open>\<^verbatim>\<open>Retry(deadline=..., predicate=..., maximum=...)\<close>, by its keyword arguments.\<close>

datatype retry = Retry (deadline: int) (predicate: string) (maximum: int)

text \<open>A call of a client method with the request it is given.\<close>

datatype call =
    ListCapacityCommitments string
  | ListReservations string
  | ListAssignments string
  | CreateCapacityCommitment string string int
  | CreateReservation string string int bool
  | CreateAssignment string string string
  | DeleteAssignment string
  | DeleteReservation string
  | DeleteCapacityCommitment string retry

datatype reply =
    Raised exn
  | Commitments "commitment list"
  | Reservations "reservation list"
  | Assignments "assignment list"
  | ACommitment commitment
  | AReservation reservation
  | AnAssignment assignment
  | Empty

text \<open>
  \<^verbatim>\<open>ReservationServiceClient\<close> is a black box: each method takes the state \<open>'s\<close> of the
  remote service to a result, or an exception, and the next state. A listing method
  stands for the whole iteration over its pager. The arguments are those of the request:
  parent; parent, plan, slot count; parent, reservation id, slot capacity, ignore idle
  slots; parent, job type, assignee; name; name and retry policy.
\<close>

record 's client =
  list_capacity_commitments :: "string \<Rightarrow> 's \<Rightarrow> (exn + commitment list) \<times> 's"
  list_reservations :: "string \<Rightarrow> 's \<Rightarrow> (exn + reservation list) \<times> 's"
  list_assignments :: "string \<Rightarrow> 's \<Rightarrow> (exn + assignment list) \<times> 's"
  create_capacity_commitment :: "string \<Rightarrow> string \<Rightarrow> int \<Rightarrow> 's \<Rightarrow> (exn + commitment) \<times> 's"
  create_reservation :: "string \<Rightarrow> string \<Rightarrow> int \<Rightarrow> bool \<Rightarrow> 's \<Rightarrow> (exn + reservation) \<times> 's"
  create_assignment_rpc :: "string \<Rightarrow> string \<Rightarrow> string \<Rightarrow> 's \<Rightarrow> (exn + assignment) \<times> 's"
  delete_assignment_rpc :: "string \<Rightarrow> 's \<Rightarrow> (exn + unit) \<times> 's"
  delete_reservation_rpc :: "string \<Rightarrow> 's \<Rightarrow> (exn + unit) \<times> 's"
  delete_capacity_commitment :: "string \<Rightarrow> retry \<Rightarrow> 's \<Rightarrow> (exn + unit) \<times> 's"

text \<open>
  The world of one run: the remote calls made so far, each with its reply, and the state
  of the remote service. Output of \<^verbatim>\<open>print\<close> is not part of it.
\<close>

record 's world =
  trace :: "(call \<times> reply) list"
  remote :: 's

type_synonym ('s, 'a) io = "'s world \<Rightarrow> (exn + 'a) \<times> 's world"

definition io_return :: "'a \<Rightarrow> ('s, 'a) io" where
  "io_return a w = (Inr a, w)"

definition io_raise :: "exn \<Rightarrow> ('s, 'a) io" where
  "io_raise e w = (Inl e, w)"

definition io_bind :: "('s, 'a) io \<Rightarrow> ('a \<Rightarrow> ('s, 'b) io) \<Rightarrow> ('s, 'b) io" where
  "io_bind m f w = (case m w of (Inl e, w') \<Rightarrow> (Inl e, w') | (Inr a, w') \<Rightarrow> f a w')"

text \<open>\<^verbatim>\<open>try: m  except Exception as e: h e\<close>\<close>

definition io_catch :: "('s, 'a) io \<Rightarrow> (exn \<Rightarrow> ('s, 'a) io) \<Rightarrow> ('s, 'a) io" where
  "io_catch m h w = (case m w of (Inl e, w') \<Rightarrow> h e w' | (Inr a, w') \<Rightarrow> (Inr a, w'))"

definition io_lift :: "exn + 'a \<Rightarrow> ('s, 'a) io" where
  "io_lift r w = (r, w)"

definition invoke :: "call \<Rightarrow> ('a \<Rightarrow> reply) \<Rightarrow> ('s \<Rightarrow> (exn + 'a) \<times> 's) \<Rightarrow> ('s, 'a) io" where
  "invoke cl wrap f w =
     (case f (remote w) of
        (r, s') \<Rightarrow> (r, \<lparr>trace = trace w @ [(cl, case r of Inl e \<Rightarrow> Raised e | Inr a \<Rightarrow> wrap a)],
                       remote = s'\<rparr>))"

section \<open>main.py\<close>

text \<open>\<^verbatim>\<open>client.common_location_path(project, location)\<close>\<close>

definition common_location_path :: "json \<Rightarrow> json \<Rightarrow> string" where
  "common_location_path project location =
     ''projects/'' @ py_str project @ ''/locations/'' @ py_str location"

definition get_commitments :: "'s client \<Rightarrow> json \<Rightarrow> json \<Rightarrow> ('s, commitment list) io" where
  "get_commitments client project_id location =
     (let parent = common_location_path project_id location
      in invoke (ListCapacityCommitments parent) Commitments
           (list_capacity_commitments client parent))"

definition get_reservations :: "'s client \<Rightarrow> json \<Rightarrow> json \<Rightarrow> ('s, reservation list) io" where
  "get_reservations client project_id location =
     (let parent = common_location_path project_id location
      in invoke (ListReservations parent) Reservations (list_reservations client parent))"

definition get_assignments :: "'s client \<Rightarrow> string \<Rightarrow> ('s, assignment list) io" where
  "get_assignments client parent =
     invoke (ListAssignments parent) Assignments (list_assignments client parent)"

definition delete_assignment :: "'s client \<Rightarrow> string \<Rightarrow> ('s, string) io" where
  "delete_assignment client assignment_name =
     io_bind (invoke (DeleteAssignment assignment_name) (\<lambda>_. Empty)
                (delete_assignment_rpc client assignment_name))
       (\<lambda>_. io_return (''Deleted assignment '' @ assignment_name))"

definition delete_reservation :: "'s client \<Rightarrow> string \<Rightarrow> ('s, string) io" where
  "delete_reservation client reservation_name =
     io_bind (invoke (DeleteReservation reservation_name) (\<lambda>_. Empty)
                (delete_reservation_rpc client reservation_name))
       (\<lambda>_. io_return (''Deleted reservation '' @ reservation_name))"

definition commitment_retry :: retry where
  "commitment_retry = Retry 90 ''Exception'' 2"

definition delete_commitment :: "'s client \<Rightarrow> string \<Rightarrow> ('s, string) io" where
  "delete_commitment client commitment_name =
     io_bind (invoke (DeleteCapacityCommitment commitment_name commitment_retry) (\<lambda>_. Empty)
                (delete_capacity_commitment client commitment_name commitment_retry))
       (\<lambda>_. io_return (''Deleted commitment '' @ commitment_name))"

definition purchase_commitment ::
  "'s client \<Rightarrow> json \<Rightarrow> json \<Rightarrow> int \<Rightarrow> string \<Rightarrow> ('s, commitment) io" where
  "purchase_commitment client project_id location slots plan =
     (let parent = common_location_path project_id location
      in invoke (CreateCapacityCommitment parent plan slots) ACommitment
           (create_capacity_commitment client parent plan slots))"

definition create_assignment :: "'s client \<Rightarrow> json \<Rightarrow> string \<Rightarrow> ('s, assignment) io" where
  "create_assignment client project_id reservation_name =
     (let assignee = ''projects/'' @ py_str project_id
      in invoke (CreateAssignment reservation_name ''QUERY'' assignee) AnAssignment
           (create_assignment_rpc client reservation_name ''QUERY'' assignee))"

text \<open>
  \<open>reservation_name\<close> is the optional argument: \<open>None\<close> where the caller leaves it out
  and the default bound at import is used.
\<close>

definition create_reservation_and_assignment ::
  "loaded_module \<Rightarrow> 's client \<Rightarrow> json \<Rightarrow> json \<Rightarrow> int \<Rightarrow> string option
     \<Rightarrow> ('s, reservation \<times> assignment) io" where
  "create_reservation_and_assignment m client project_id location slots reservation_name =
     (let reservation_id =
            (case reservation_name of None \<Rightarrow> default_reservation_name m | Some n \<Rightarrow> n);
          parent = common_location_path project_id location
      in io_bind (invoke (CreateReservation parent reservation_id slots False) AReservation
                    (create_reservation client parent reservation_id slots False))
           (\<lambda>reservation.
              io_catch
                (io_bind (create_assignment client project_id (res_name reservation))
                   (\<lambda>assignment. io_return (reservation, assignment)))
                (\<lambda>e. io_bind (io_lift (get_message e))
                        (\<lambda>_. io_bind (delete_reservation client (res_name reservation))
                                (\<lambda>_. io_raise e)))))"

text \<open>
  The loop of \<^verbatim>\<open>report\<close> over the reservations, \<open>log\<close> being the list it appends
  to. The source appends the line of a reservation before it lists the assignments; the
  list is local and is lost when the listing raises, so that line and the lines of the
  assignments are appended here once the listing has returned.
\<close>

fun report_reservations ::
  "'s client \<Rightarrow> reservation list \<Rightarrow> string list \<Rightarrow> ('s, string list) io" where
  "report_reservations client [] log = io_return log"
| "report_reservations client (reservation # rest) log =
     io_bind (get_assignments client (res_name reservation))
       (\<lambda>assignments.
          report_reservations client rest
            (log @ [''Reservation '' @ res_name reservation]
                 @ map (\<lambda>assignment. ''Assignment '' @ asg_name assignment) assignments))"

definition report :: "'s client \<Rightarrow> json \<Rightarrow> json \<Rightarrow> ('s, string list) io" where
  "report client project_id location =
     io_bind (get_reservations client project_id location)
       (\<lambda>reservations. io_bind (report_reservations client reservations [])
          (\<lambda>log. io_bind (get_commitments client project_id location)
             (\<lambda>commitments.
                io_return (log @ map (\<lambda>commitment. ''Commitment '' @ cc_name commitment)
                                   commitments))))"

text \<open>The three loops of \<^verbatim>\<open>cleanup\<close>.\<close>

fun cleanup_assignments ::
  "'s client \<Rightarrow> assignment list \<Rightarrow> string list \<Rightarrow> ('s, string list) io" where
  "cleanup_assignments client [] log = io_return log"
| "cleanup_assignments client (assignment # rest) log =
     io_bind (delete_assignment client (asg_name assignment))
       (\<lambda>line. cleanup_assignments client rest (log @ [line]))"

fun cleanup_reservations ::
  "'s client \<Rightarrow> reservation list \<Rightarrow> string list \<Rightarrow> ('s, string list) io" where
  "cleanup_reservations client [] log = io_return log"
| "cleanup_reservations client (reservation # rest) log =
     io_bind (get_assignments client (res_name reservation))
       (\<lambda>assignments. io_bind (cleanup_assignments client assignments log)
          (\<lambda>log1. io_bind (delete_reservation client (res_name reservation))
             (\<lambda>line. cleanup_reservations client rest (log1 @ [line]))))"

fun cleanup_commitments ::
  "'s client \<Rightarrow> commitment list \<Rightarrow> string list \<Rightarrow> ('s, string list) io" where
  "cleanup_commitments client [] log = io_return log"
| "cleanup_commitments client (commitment # rest) log =
     io_bind (delete_commitment client (cc_name commitment))
       (\<lambda>line. cleanup_commitments client rest (log @ [line]))"

definition cleanup :: "'s client \<Rightarrow> json \<Rightarrow> json \<Rightarrow> ('s, string list) io" where
  "cleanup client project_id location =
     io_bind (get_reservations client project_id location)
       (\<lambda>reservations. io_bind (cleanup_reservations client reservations [])
          (\<lambda>log. io_bind (get_commitments client project_id location)
             (\<lambda>commitments. cleanup_commitments client commitments log)))"

text \<open>
  A response of \<^verbatim>\<open>make_response(jsonify(...), status)\<close>: the status and the fields
  of the JSON object, in the order the source writes them.
\<close>

datatype field = Text string | Lines "string list"

record response =
  status :: nat
  body :: "(string \<times> field) list"

definition report_http :: "'s client \<Rightarrow> json \<Rightarrow> json \<Rightarrow> ('s, response) io" where
  "report_http client project_id location =
     io_bind (report client project_id location)
       (\<lambda>log. io_return
          \<lparr>status = 200,
           body = [(''message'', Text (''Successfully ran report in '' @ py_str location
                                        @ '' for project '' @ py_str project_id)),
                   (''log'', Lines log),
                   (''severity'', Text ''info'')]\<rparr>)"

definition cleanup_http :: "'s client \<Rightarrow> json \<Rightarrow> json \<Rightarrow> ('s, response) io" where
  "cleanup_http client project_id location =
     io_bind (cleanup client project_id location)
       (\<lambda>log. io_return
          \<lparr>status = 200,
           body = [(''message'', Text (''Successfully ran cleanup in project ''
                                        @ py_str project_id @ '' located in ''
                                        @ py_str location)),
                   (''log'', Lines log),
                   (''severity'', Text ''info'')]\<rparr>)"

definition purchase_http ::
  "loaded_module \<Rightarrow> 's client \<Rightarrow> json \<Rightarrow> json \<Rightarrow> int \<Rightarrow> ('s, response) io" where
  "purchase_http m client project_id location slots =
     io_bind (purchase_commitment client project_id location slots ''FLEX'')
       (\<lambda>commitment.
          io_catch
            (io_bind (create_reservation_and_assignment m client project_id location slots None)
               (\<lambda>ra. io_return
                  \<lparr>status = 200,
                   body = [(''message'', Text (''Successfully purchased commitment for ''
                                                @ show_int slots @ '' slots in project ''
                                                @ py_str project_id @ '' located in ''
                                                @ py_str location)),
                           (''commitment'', Text (cc_name commitment)),
                           (''reservation'', Text (res_name (fst ra))),
                           (''assignment'', Text (asg_name (snd ra))),
                           (''severity'', Text ''info'')]\<rparr>))
            (\<lambda>e. io_bind (delete_commitment client (cc_name commitment)) (\<lambda>_. io_raise e)))"

definition handle_exception :: "exn \<Rightarrow> response" where
  "handle_exception e =
     (case exn_message e of
        Some message \<Rightarrow>
          \<lparr>status = 500, body = [(''message'', Text message), (''severity'', Text ''error'')]\<rparr>
      | None \<Rightarrow>
          \<lparr>status = 500, body = [(''message'', Text (exn_str e)), (''severity'', Text ''error'')]\<rparr>)"

text \<open>
  \<open>data\<close> is the result of \<^verbatim>\<open>request.get_json(force=True, silent=True)\<close>: \<open>None\<close>
  for a body that is not JSON (or is \<^verbatim>\<open>null\<close>), else the dict of a JSON object.
  \<open>new_client\<close> is what \<^verbatim>\<open>ReservationServiceClient()\<close> gives: a client, or the
  exception its construction raises.
\<close>

definition main_http ::
  "loaded_module \<Rightarrow> exn + 's client \<Rightarrow> (string \<rightharpoonup> json) option \<Rightarrow> ('s, response) io" where
  "main_http m new_client data =
     (case data of
        None \<Rightarrow>
          io_return \<lparr>status = 400,
                     body = [(''message'', Text ''json request is required''),
                             (''severity'', Text ''error'')]\<rparr>
      | Some d \<Rightarrow>
          (case d ''project_id'' of
             None \<Rightarrow>
               io_return \<lparr>status = 400,
                          body = [(''message'',
                                     Text ''project_id is required in the json request''),
                                  (''severity'', Text ''error'')]\<rparr>
           | Some project_id \<Rightarrow>
               (let location = (case d ''location'' of None \<Rightarrow> JStr ''EU'' | Some v \<Rightarrow> v);
                    slots = (case d ''slots'' of None \<Rightarrow> JInt 100 | Some v \<Rightarrow> v)
                in io_bind (io_lift new_client)
                     (\<lambda>client.
                        case d ''operation'' of
                          None \<Rightarrow>
                            io_return \<lparr>status = 200,
                                       body = [(''message'',
                                                  Text (''Available operations are ''
                                                    @ [CHR 0x27] @ ''report'' @ [CHR 0x27]
                                                    @ '', '' @ [CHR 0x27] @ ''cleanup''
                                                    @ [CHR 0x27] @ '' and '' @ [CHR 0x27]
                                                    @ ''purchase'' @ [CHR 0x27])),
                                               (''severity'', Text ''info'')]\<rparr>
                        | Some operation \<Rightarrow>
                            if JStr ''report'' = operation
                              then report_http client project_id location
                            else if JStr ''cleanup'' = operation
                              then cleanup_http client project_id location
                            else if JStr ''purchase'' = operation
                              then io_bind (io_lift (py_int slots))
                                     (\<lambda>n. purchase_http m client project_id location n)
                            else
                              io_return \<lparr>status = 400,
                                         body = [(''message'',
                                                    Text (''Unsupported operation ''
                                                      @ [CHR 0x27] @ py_str operation
                                                      @ [CHR 0x27])),
                                                 (''severity'', Text ''info'')]\<rparr>))))"

text \<open>
  The function as the framework serves it: an exception that leaves \<^verbatim>\<open>main_http\<close>
  goes to the registered \<^verbatim>\<open>handle_exception\<close>.
\<close>

definition serve ::
  "loaded_module \<Rightarrow> exn + 's client \<Rightarrow> (string \<rightharpoonup> json) option \<Rightarrow> 's world
     \<Rightarrow> response \<times> 's world" where
  "serve m new_client data w =
     (case main_http m new_client data w of
        (Inl e, w') \<Rightarrow> (handle_exception e, w')
      | (Inr r, w') \<Rightarrow> (r, w'))"

section \<open>A reference service\<close>

text \<open>
  A small in-memory reservation service, to run the program on: it keeps the resources
  of one scope, names what it creates, refuses to delete what is missing or a reservation
  that still has assignments, and raises the exception \<open>fault\<close> gives for a call, if any.
\<close>

record service =
  svc_commitments :: "commitment list"
  svc_reservations :: "reservation list"
  svc_assignments :: "(string \<times> assignment) list"

definition api_error :: "string \<Rightarrow> string \<Rightarrow> exn" where
  "api_error code message = Exn ''GoogleAPICallError'' (Some message) (code @ '' '' @ message)"

definition faulty :: "(call \<Rightarrow> exn option) \<Rightarrow> call \<Rightarrow> (service \<Rightarrow> (exn + 'a) \<times> service)
    \<Rightarrow> service \<Rightarrow> (exn + 'a) \<times> service" where
  "faulty fault cl f s = (case fault cl of Some e \<Rightarrow> (Inl e, s) | None \<Rightarrow> f s)"

definition service_client :: "(call \<Rightarrow> exn option) \<Rightarrow> service client" where
  "service_client fault =
     \<lparr>list_capacity_commitments = (\<lambda>parent.
        faulty fault (ListCapacityCommitments parent) (\<lambda>s. (Inr (svc_commitments s), s))),
      list_reservations = (\<lambda>parent.
        faulty fault (ListReservations parent) (\<lambda>s. (Inr (svc_reservations s), s))),
      list_assignments = (\<lambda>parent.
        faulty fault (ListAssignments parent)
          (\<lambda>s. (Inr (map snd (filter (\<lambda>pa. fst pa = parent) (svc_assignments s))), s))),
      create_capacity_commitment = (\<lambda>parent plan slots.
        faulty fault (CreateCapacityCommitment parent plan slots)
          (\<lambda>s. let c = \<lparr>cc_name = parent @ ''/capacityCommitments/''
                                   @ show_nat (length (svc_commitments s)),
                         cc_plan = plan, cc_slot_count = slots\<rparr>
               in (Inr c, s\<lparr>svc_commitments := svc_commitments s @ [c]\<rparr>))),
      create_reservation = (\<lambda>parent reservation_id slots idle.
        faulty fault (CreateReservation parent reservation_id slots idle)
          (\<lambda>s. let r = \<lparr>res_name = parent @ ''/reservations/'' @ reservation_id,
                         res_slot_capacity = slots, res_ignore_idle_slots = idle\<rparr>
               in if res_name r \<in> set (map res_name (svc_reservations s))
                  then (Inl (api_error ''409'' ''Already exists''), s)
                  else (Inr r, s\<lparr>svc_reservations := svc_reservations s @ [r]\<rparr>))),
      create_assignment_rpc = (\<lambda>parent job assignee.
        faulty fault (CreateAssignment parent job assignee)
          (\<lambda>s. let a = \<lparr>asg_name = parent @ ''/assignments/''
                                    @ show_nat (length (svc_assignments s)),
                         asg_job_type = job, asg_assignee = assignee\<rparr>
               in if parent \<in> set (map res_name (svc_reservations s))
                  then (Inr a, s\<lparr>svc_assignments := svc_assignments s @ [(parent, a)]\<rparr>)
                  else (Inl (api_error ''404'' ''Not found''), s))),
      delete_assignment_rpc = (\<lambda>name.
        faulty fault (DeleteAssignment name)
          (\<lambda>s. if name \<in> set (map (asg_name \<circ> snd) (svc_assignments s))
               then (Inr (), s\<lparr>svc_assignments :=
                                 filter (\<lambda>pa. asg_name (snd pa) \<noteq> name) (svc_assignments s)\<rparr>)
               else (Inl (api_error ''404'' ''Not found''), s))),
      delete_reservation_rpc = (\<lambda>name.
        faulty fault (DeleteReservation name)
          (\<lambda>s. if name \<notin> set (map res_name (svc_reservations s))
               then (Inl (api_error ''404'' ''Not found''), s)
               else if name \<in> set (map fst (svc_assignments s))
               then (Inl (api_error ''400'' ''Reservation has assignments''), s)
               else (Inr (), s\<lparr>svc_reservations :=
                                 filter (\<lambda>r. res_name r \<noteq> name) (svc_reservations s)\<rparr>))),
      delete_capacity_commitment = (\<lambda>name policy.
        faulty fault (DeleteCapacityCommitment name policy)
          (\<lambda>s. if name \<in> set (map cc_name (svc_commitments s))
               then (Inr (), s\<lparr>svc_commitments :=
                                 filter (\<lambda>c. cc_name c \<noteq> name) (svc_commitments s)\<rparr>)
               else (Inl (api_error ''404'' ''Not found''), s)))\<rparr>"

definition empty_service :: service where
  "empty_service = \<lparr>svc_commitments = [], svc_reservations = [], svc_assignments = []\<rparr>"

definition no_fault :: "call \<Rightarrow> exn option" where
  "no_fault cl = None"

text \<open>Exceptions the service of the examples raises.\<close>

definition unavailable :: exn where
  "unavailable = api_error ''503'' ''Service unavailable''"

definition still_referenced :: exn where
  "still_referenced = api_error ''400'' ''Resource is still referenced''"

text \<open>An exception of a class without the attribute \<^verbatim>\<open>message\<close>.\<close>

definition token_expired :: exn where
  "token_expired = Exn ''RefreshError'' None ''Token has expired''"

text \<open>Faults: which calls fail, and with what.\<close>

fun reservation_outage :: "call \<Rightarrow> exn option" where
  "reservation_outage (CreateReservation parent reservation_id slots idle) = Some unavailable"
| "reservation_outage cl = None"

fun reservation_outage_stuck_commitment :: "call \<Rightarrow> exn option" where
  "reservation_outage_stuck_commitment (CreateReservation parent reservation_id slots idle) =
     Some unavailable"
| "reservation_outage_stuck_commitment (DeleteCapacityCommitment name policy) =
     Some still_referenced"
| "reservation_outage_stuck_commitment cl = None"

fun assignment_outage :: "call \<Rightarrow> exn option" where
  "assignment_outage (CreateAssignment parent job assignee) = Some unavailable"
| "assignment_outage cl = None"

fun assignment_outage_stuck_reservation :: "call \<Rightarrow> exn option" where
  "assignment_outage_stuck_reservation (CreateAssignment parent job assignee) =
     Some unavailable"
| "assignment_outage_stuck_reservation (DeleteReservation name) = Some still_referenced"
| "assignment_outage_stuck_reservation cl = None"

fun assignment_token_expired :: "call \<Rightarrow> exn option" where
  "assignment_token_expired (CreateAssignment parent job assignee) = Some token_expired"
| "assignment_token_expired cl = None"

fun assignment_delete_outage :: "call \<Rightarrow> exn option" where
  "assignment_delete_outage (DeleteAssignment name) = Some unavailable"
| "assignment_delete_outage cl = None"

text \<open>A module loaded on 7 March 2021 at 09:05:42, and a service with nothing in it.\<close>

definition example_module :: loaded_module where
  "example_module =
     load_module \<lparr>year = 2021, month = 3, day = 7, hour = 9, minute = 5, second = 42\<rparr>
       (\<lambda>i. 3 * i + 1)"

definition fresh_world :: "service world" where
  "fresh_world = \<lparr>trace = [], remote = empty_service\<rparr>"

text \<open>A scope with two reservations of two assignments each, and three commitments.\<close>

definition stocked_service :: service where
  "stocked_service =
     \<lparr>svc_commitments =
        [\<lparr>cc_name = ''c1'', cc_plan = ''FLEX'', cc_slot_count = 100\<rparr>,
         \<lparr>cc_name = ''c2'', cc_plan = ''FLEX'', cc_slot_count = 100\<rparr>,
         \<lparr>cc_name = ''c3'', cc_plan = ''FLEX'', cc_slot_count = 200\<rparr>],
      svc_reservations =
        [\<lparr>res_name = ''r1'', res_slot_capacity = 100, res_ignore_idle_slots = False\<rparr>,
         \<lparr>res_name = ''r2'', res_slot_capacity = 100, res_ignore_idle_slots = False\<rparr>],
      svc_assignments =
        [(''r1'', \<lparr>asg_name = ''r1/a1'', asg_job_type = ''QUERY'', asg_assignee = ''projects/p1''\<rparr>),
         (''r1'', \<lparr>asg_name = ''r1/a2'', asg_job_type = ''QUERY'', asg_assignee = ''projects/p2''\<rparr>),
         (''r2'', \<lparr>asg_name = ''r2/a1'', asg_job_type = ''QUERY'', asg_assignee = ''projects/p3''\<rparr>),
         (''r2'', \<lparr>asg_name = ''r2/a2'', asg_job_type = ''QUERY'', asg_assignee = ''projects/p4''\<rparr>)]\<rparr>"

definition stocked_world :: "service world" where
  "stocked_world = \<lparr>trace = [], remote = stocked_service\<rparr>"

section \<open>Reading a trace\<close>

text \<open>The reservation ids that the CreateReservation calls of a trace carry.\<close>

fun reservation_id_of :: "call \<Rightarrow> string option" where
  "reservation_id_of (CreateReservation parent reservation_id slots idle) = Some reservation_id"
| "reservation_id_of cl = None"

definition reservation_ids :: "(call \<times> reply) list \<Rightarrow> string list" where
  "reservation_ids evs = List.map_filter (reservation_id_of \<circ> fst) evs"

fun is_listing :: "call \<Rightarrow> bool" where
  "is_listing (ListCapacityCommitments parent) = True"
| "is_listing (ListReservations parent) = True"
| "is_listing (ListAssignments parent) = True"
| "is_listing cl = False"

fun is_assignment_delete :: "call \<Rightarrow> bool" where
  "is_assignment_delete (DeleteAssignment name) = True"
| "is_assignment_delete cl = False"

fun is_reservation_delete :: "call \<Rightarrow> bool" where
  "is_reservation_delete (DeleteReservation name) = True"
| "is_reservation_delete cl = False"

fun is_commitment_delete :: "call \<Rightarrow> bool" where
  "is_commitment_delete (DeleteCapacityCommitment name policy) = True"
| "is_commitment_delete cl = False"

definition count_calls :: "(call \<Rightarrow> bool) \<Rightarrow> (call \<times> reply) list \<Rightarrow> nat" where
  "count_calls p evs = length (filter (p \<circ> fst) evs)"

text \<open>A client whose listing methods leave the state of the remote service as it is.\<close>

definition listings_pure :: "'s client \<Rightarrow> bool" where
  "listings_pure client =
     (\<forall>parent s. snd (list_capacity_commitments client parent s) = s
                \<and> snd (list_reservations client parent s) = s
                \<and> snd (list_assignments client parent s) = s)"

text \<open>
  What \<^verbatim>\<open>report\<close> logs for a reservation with its assignments; the calls
  \<^verbatim>\<open>cleanup\<close> makes for a reservation with its assignments when none fails, and
  what it logs for them.
\<close>

definition report_lines :: "reservation \<Rightarrow> assignment list \<Rightarrow> string list" where
  "report_lines r as =
     (''Reservation '' @ res_name r) # map (\<lambda>a. ''Assignment '' @ asg_name a) as"

definition teardown_block :: "reservation \<Rightarrow> assignment list \<Rightarrow> (call \<times> reply) list" where
  "teardown_block r as =
     (ListAssignments (res_name r), Assignments as)
       # map (\<lambda>a. (DeleteAssignment (asg_name a), Empty)) as
       @ [(DeleteReservation (res_name r), Empty)]"

definition teardown_lines :: "reservation \<Rightarrow> assignment list \<Rightarrow> string list" where
  "teardown_lines r as =
     map (\<lambda>a. ''Deleted assignment '' @ asg_name a) as @ [''Deleted reservation '' @ res_name r]"

text \<open>The world a first successful purchase of 50 slots for project p1 leaves behind.\<close>

definition after_first_purchase :: "service world" where
  "after_first_purchase =
     \<lparr>trace =
        [(CreateCapacityCommitment ''projects/p1/locations/EU'' ''FLEX'' 50,
          ACommitment \<lparr>cc_name = ''projects/p1/locations/EU/capacityCommitments/0'',
                       cc_plan = ''FLEX'', cc_slot_count = 50\<rparr>),
         (CreateReservation ''projects/p1/locations/EU''
            ''reservation-20210307-09054205-behknqtw'' 50 False,
          AReservation
            \<lparr>res_name = ''projects/p1/locations/EU/reservations/reservation-20210307-09054205-behknqtw'',
             res_slot_capacity = 50, res_ignore_idle_slots = False\<rparr>),
         (CreateAssignment
            ''projects/p1/locations/EU/reservations/reservation-20210307-09054205-behknqtw''
            ''QUERY'' ''projects/p1'',
          AnAssignment
            \<lparr>asg_name = ''projects/p1/locations/EU/reservations/reservation-20210307-09054205-behknqtw/assignments/0'',
             asg_job_type = ''QUERY'', asg_assignee = ''projects/p1''\<rparr>)],
      remote =
        \<lparr>svc_commitments =
           [\<lparr>cc_name = ''projects/p1/locations/EU/capacityCommitments/0'',
             cc_plan = ''FLEX'', cc_slot_count = 50\<rparr>],
         svc_reservations =
           [\<lparr>res_name = ''projects/p1/locations/EU/reservations/reservation-20210307-09054205-behknqtw'',
             res_slot_capacity = 50, res_ignore_idle_slots = False\<rparr>],
         svc_assignments =
           [(''projects/p1/locations/EU/reservations/reservation-20210307-09054205-behknqtw'',
             \<lparr>asg_name = ''projects/p1/locations/EU/reservations/reservation-20210307-09054205-behknqtw/assignments/0'',
              asg_job_type = ''QUERY'', asg_assignee = ''projects/p1''\<rparr>)]\<rparr>\<rparr>"

text \<open>
  The whole trace and log of a \<^verbatim>\<open>cleanup\<close> in which no call fails, for the
  reservations \<open>rs\<close>, their assignments \<open>ass\<close> and the commitments \<open>cs\<close> the listings
  return.
\<close>

definition teardown_trace ::
  "string \<Rightarrow> reservation list \<Rightarrow> assignment list list \<Rightarrow> commitment list
     \<Rightarrow> (call \<times> reply) list" where
  "teardown_trace scope rs ass cs =
     (ListReservations scope, Reservations rs)
       # concat (map2 teardown_block rs ass)
       @ (ListCapacityCommitments scope, Commitments cs)
       # map (\<lambda>c. (DeleteCapacityCommitment (cc_name c) commitment_retry, Empty)) cs"

definition teardown_log ::
  "reservation list \<Rightarrow> assignment list list \<Rightarrow> commitment list \<Rightarrow> string list" where
  "teardown_log rs ass cs =
     concat (map2 teardown_lines rs ass) @ map (\<lambda>c. ''Deleted commitment '' @ cc_name c) cs"

section \<open>Facts used throughout\<close>

lemmas io_defs = io_return_def io_raise_def io_bind_def io_catch_def io_lift_def invoke_def

lemmas purchase_defs = purchase_http_def purchase_commitment_def
  create_reservation_and_assignment_def create_assignment_def delete_reservation_def
  delete_commitment_def get_message_def Let_def

text \<open>The methods of the reference service, one by one.\<close>

lemma service_ops:
  "list_capacity_commitments (service_client fault) parent =
     faulty fault (ListCapacityCommitments parent) (\<lambda>s. (Inr (svc_commitments s), s))"
  "list_reservations (service_client fault) parent =
     faulty fault (ListReservations parent) (\<lambda>s. (Inr (svc_reservations s), s))"
  "list_assignments (service_client fault) parent =
     faulty fault (ListAssignments parent)
       (\<lambda>s. (Inr (map snd (filter (\<lambda>pa. fst pa = parent) (svc_assignments s))), s))"
  "create_capacity_commitment (service_client fault) parent plan slots =
     faulty fault (CreateCapacityCommitment parent plan slots)
       (\<lambda>s. let c = \<lparr>cc_name = parent @ ''/capacityCommitments/''
                                @ show_nat (length (svc_commitments s)),
                      cc_plan = plan, cc_slot_count = slots\<rparr>
            in (Inr c, s\<lparr>svc_commitments := svc_commitments s @ [c]\<rparr>))"
  "create_reservation (service_client fault) parent reservation_id slots idle =
     faulty fault (CreateReservation parent reservation_id slots idle)
       (\<lambda>s. let r = \<lparr>res_name = parent @ ''/reservations/'' @ reservation_id,
                      res_slot_capacity = slots, res_ignore_idle_slots = idle\<rparr>
            in if res_name r \<in> set (map res_name (svc_reservations s))
               then (Inl (api_error ''409'' ''Already exists''), s)
               else (Inr r, s\<lparr>svc_reservations := svc_reservations s @ [r]\<rparr>))"
  "create_assignment_rpc (service_client fault) parent job assignee =
     faulty fault (CreateAssignment parent job assignee)
       (\<lambda>s. let a = \<lparr>asg_name = parent @ ''/assignments/''
                                 @ show_nat (length (svc_assignments s)),
                      asg_job_type = job, asg_assignee = assignee\<rparr>
            in if parent \<in> set (map res_name (svc_reservations s))
               then (Inr a, s\<lparr>svc_assignments := svc_assignments s @ [(parent, a)]\<rparr>)
               else (Inl (api_error ''404'' ''Not found''), s))"
  "delete_assignment_rpc (service_client fault) name =
     faulty fault (DeleteAssignment name)
       (\<lambda>s. if name \<in> set (map (asg_name \<circ> snd) (svc_assignments s))
            then (Inr (), s\<lparr>svc_assignments :=
                              filter (\<lambda>pa. asg_name (snd pa) \<noteq> name) (svc_assignments s)\<rparr>)
            else (Inl (api_error ''404'' ''Not found''), s))"
  "delete_reservation_rpc (service_client fault) name =
     faulty fault (DeleteReservation name)
       (\<lambda>s. if name \<notin> set (map res_name (svc_reservations s))
            then (Inl (api_error ''404'' ''Not found''), s)
            else if name \<in> set (map fst (svc_assignments s))
            then (Inl (api_error ''400'' ''Reservation has assignments''), s)
            else (Inr (), s\<lparr>svc_reservations :=
                              filter (\<lambda>r. res_name r \<noteq> name) (svc_reservations s)\<rparr>))"
  "delete_capacity_commitment (service_client fault) name policy =
     faulty fault (DeleteCapacityCommitment name policy)
       (\<lambda>s. if name \<in> set (map cc_name (svc_commitments s))
            then (Inr (), s\<lparr>svc_commitments :=
                              filter (\<lambda>c. cc_name c \<noteq> name) (svc_commitments s)\<rparr>)
            else (Inl (api_error ''404'' ''Not found''), s))"
  by (simp_all add: service_client_def)

lemmas service_defs = service_ops faulty_def no_fault_def empty_service_def
  fresh_world_def api_error_def common_location_path_def show_nat.simps digit_char_def
  commitment_retry_def Let_def

lemma example_reservation_name:
  "default_reservation_name example_module = ''reservation-20210307-09054205-behknqtw''"
  by (simp add: example_module_def load_module_def get_reservation_name_def
      strftime_reservation_def pad2_def get_random_string_def ascii_lowercase_def
      show_nat.simps digit_char_def upt_rec)

section \<open>Request validation and dispatch\<close>

text \<open>
  C8. A request body that is a JSON object without the field \<^verbatim>\<open>project_id\<close> is answered
  with status 400 and severity "error", whatever else it holds, and the world is returned
  as it was: no call has been added to the trace and the remote state is untouched (the
  client has not even been constructed, so the result does not depend on \<open>new_client\<close>).
\<close>

theorem missing_project_id_is_400:
  assumes "d ''project_id'' = None"
  shows "serve m new_client (Some d) w =
           (\<lparr>status = 400,
             body = [(''message'', Text ''project_id is required in the json request''),
                     (''severity'', Text ''error'')]\<rparr>, w)"
  using assms by (simp add: serve_def main_http_def io_return_def)

theorem missing_project_id_is_400_witness:
  "[''operation'' \<mapsto> JStr ''purchase'', ''slots'' \<mapsto> JStr ''many''] ''project_id'' = None
   \<and> serve example_module (Inr (service_client no_fault))
         (Some [''operation'' \<mapsto> JStr ''purchase'', ''slots'' \<mapsto> JStr ''many''])
         fresh_world
       = (\<lparr>status = 400,
           body = [(''message'', Text ''project_id is required in the json request''),
                   (''severity'', Text ''error'')]\<rparr>,
          fresh_world)"
proof -
  have h: "[''operation'' \<mapsto> JStr ''purchase'', ''slots'' \<mapsto> JStr ''many''] ''project_id''
             = None"
    by simp
  show ?thesis
    using h missing_project_id_is_400
      [of "[''operation'' \<mapsto> JStr ''purchase'', ''slots'' \<mapsto> JStr ''many'']"]
    by blast
qed

text \<open>
  C5. A request with a \<^verbatim>\<open>project_id\<close> and an operation other than "report", "cleanup"
  and "purchase" is answered with status 400, and the severity the source writes into that
  response is "info", not "error": the two other responses with status 400 (no JSON body,
  no \<^verbatim>\<open>project_id\<close>) carry "error". No remote call is made.
\<close>

theorem unsupported_operation_is_info:
  assumes "d ''project_id'' = Some project_id"
    and "d ''operation'' = Some operation"
    and "operation \<noteq> JStr ''report''" and "operation \<noteq> JStr ''cleanup''"
    and "operation \<noteq> JStr ''purchase''"
  shows "serve m (Inr client) (Some d) w =
           (\<lparr>status = 400,
             body = [(''message'', Text (''Unsupported operation '' @ [CHR 0x27]
                                          @ py_str operation @ [CHR 0x27])),
                     (''severity'', Text ''info'')]\<rparr>, w)"
  using assms
  by (auto simp add: serve_def main_http_def io_return_def io_bind_def io_lift_def Let_def)

theorem unsupported_operation_is_info_witness:
  "serve example_module (Inr (service_client no_fault))
     (Some [''project_id'' \<mapsto> JStr ''p1'', ''operation'' \<mapsto> JStr ''delete''])
     fresh_world
   = (\<lparr>status = 400,
       body = [(''message'', Text (''Unsupported operation '' @ [CHR 0x27] @ ''delete''
                                    @ [CHR 0x27])),
               (''severity'', Text ''info'')]\<rparr>, fresh_world)"
  using unsupported_operation_is_info
    [of "[''project_id'' \<mapsto> JStr ''p1'', ''operation'' \<mapsto> JStr ''delete'']"
        "JStr ''p1''" "JStr ''delete''" example_module "service_client no_fault" fresh_world]
  by simp



text \<open>
  C10. Changing, adding or removing the field \<^verbatim>\<open>slots\<close> of a request whose operation is
  not "purchase" (so "report", "cleanup", an absent operation, and every other value)
  changes nothing: from the same world and with the same client, the response, the trace of
  remote calls and the remote state are the same.
\<close>

theorem slots_ignored_outside_purchase:
  assumes "d ''operation'' \<noteq> Some (JStr ''purchase'')"
  shows "serve m new_client (Some (d(''slots'' := v))) w = serve m new_client (Some d) w"
proof -
  have "main_http m new_client (Some (d(''slots'' := v))) = main_http m new_client (Some d)"
  proof (cases "d ''project_id''")
    case None
    then show ?thesis by (simp add: main_http_def)
  next
    case pid: (Some project_id)
    show ?thesis
    proof (cases "d ''operation''")
      case None
      with pid show ?thesis by (simp add: main_http_def Let_def)
    next
      case (Some operation)
      with assms have neq: "JStr ''purchase'' \<noteq> operation" by auto
      have "main_http m new_client (Some d') =
              io_bind (io_lift new_client)
                (\<lambda>client.
                   if JStr ''report'' = operation
                     then report_http client project_id
                            (case d ''location'' of None \<Rightarrow> JStr ''EU'' | Some l \<Rightarrow> l)
                   else if JStr ''cleanup'' = operation
                     then cleanup_http client project_id
                            (case d ''location'' of None \<Rightarrow> JStr ''EU'' | Some l \<Rightarrow> l)
                   else io_return \<lparr>status = 400,
                                  body = [(''message'',
                                             Text (''Unsupported operation ''
                                               @ [CHR 0x27] @ py_str operation
                                               @ [CHR 0x27])),
                                          (''severity'', Text ''info'')]\<rparr>)"
        if "d' ''project_id'' = d ''project_id''" "d' ''location'' = d ''location''"
          "d' ''operation'' = d ''operation''" for d'
        unfolding main_http_def using that Some pid neq
        by (auto simp add: Let_def intro!: arg_cong [where f = "io_bind (io_lift new_client)"])
      from this [of "d(''slots'' := v)"] this [of d] show ?thesis by simp
    qed
  qed
  then show ?thesis by (simp add: serve_def)
qed

theorem slots_ignored_outside_purchase_witness:
  "serve example_module (Inr (service_client no_fault))
     (Some ([''project_id'' \<mapsto> JStr ''p1'', ''operation'' \<mapsto> JStr ''cleanup'',
             ''slots'' \<mapsto> JInt 5](''slots'' := Some (JStr ''many''))))
     stocked_world
   = serve example_module (Inr (service_client no_fault))
       (Some [''project_id'' \<mapsto> JStr ''p1'', ''operation'' \<mapsto> JStr ''cleanup'',
              ''slots'' \<mapsto> JInt 5])
       stocked_world"
proof -
  let ?d = "[''project_id'' \<mapsto> JStr ''p1'', ''operation'' \<mapsto> JStr ''cleanup'',
             ''slots'' \<mapsto> JInt 5]"
  have h: "?d ''operation'' \<noteq> Some (JStr ''purchase'')" by simp
  show ?thesis
    by (rule slots_ignored_outside_purchase [of ?d, OF h])
qed

section \<open>The purchase transaction\<close>

text \<open>
  C2, as the code has it. When creating the commitment succeeds, creating the reservation
  raises \<open>e\<close> and the compensating delete of the commitment succeeds, the purchase makes
  exactly three remote calls (create commitment, create reservation, delete that
  commitment, under the retry policy), none of them creates an assignment, and it raises
  the same \<open>e\<close>.
\<close>

theorem reservation_failure_rolls_back_commitment:
  assumes "create_capacity_commitment client (common_location_path project_id location)
             ''FLEX'' slots (remote w) = (Inr commitment, s1)"
    and "create_reservation client (common_location_path project_id location)
           (default_reservation_name m) slots False s1 = (Inl e, s2)"
    and "delete_capacity_commitment client (cc_name commitment) commitment_retry s2
           = (Inr (), s3)"
  shows "purchase_http m client project_id location slots w =
           (Inl e,
            \<lparr>trace = trace w @
               [(CreateCapacityCommitment (common_location_path project_id location)
                   ''FLEX'' slots, ACommitment commitment),
                (CreateReservation (common_location_path project_id location)
                   (default_reservation_name m) slots False, Raised e),
                (DeleteCapacityCommitment (cc_name commitment) commitment_retry, Empty)],
             remote = s3\<rparr>)"
  using assms by (simp add: purchase_defs io_defs)

theorem reservation_failure_rolls_back_commitment_witness:
  "purchase_http example_module (service_client reservation_outage) (JStr ''p1'') (JStr ''EU'')
     50 fresh_world =
     (Inl unavailable,
      \<lparr>trace =
         [(CreateCapacityCommitment ''projects/p1/locations/EU'' ''FLEX'' 50,
           ACommitment \<lparr>cc_name = ''projects/p1/locations/EU/capacityCommitments/0'',
                        cc_plan = ''FLEX'', cc_slot_count = 50\<rparr>),
          (CreateReservation ''projects/p1/locations/EU''
             ''reservation-20210307-09054205-behknqtw'' 50 False, Raised unavailable),
          (DeleteCapacityCommitment ''projects/p1/locations/EU/capacityCommitments/0''
             (Retry 90 ''Exception'' 2), Empty)],
       remote = empty_service\<rparr>)"
proof -
  let ?c = "\<lparr>cc_name = ''projects/p1/locations/EU/capacityCommitments/0'',
              cc_plan = ''FLEX'', cc_slot_count = 50\<rparr>"
  let ?s1 = "\<lparr>svc_commitments = [?c], svc_reservations = [], svc_assignments = []\<rparr>"
  have a: "create_capacity_commitment (service_client reservation_outage)
             (common_location_path (JStr ''p1'') (JStr ''EU'')) ''FLEX'' 50 (remote fresh_world)
             = (Inr ?c, ?s1)"
    by (simp add: service_defs Let_def)
  have b: "create_reservation (service_client reservation_outage)
             (common_location_path (JStr ''p1'') (JStr ''EU''))
             (default_reservation_name example_module) 50 False ?s1 = (Inl unavailable, ?s1)"
    by (simp add: service_defs)
  have c: "delete_capacity_commitment (service_client reservation_outage) (cc_name ?c)
             commitment_retry ?s1 = (Inr (), empty_service)"
    by (simp add: service_defs)
  show ?thesis
    using reservation_failure_rolls_back_commitment [OF a b c]
    by (simp add: example_reservation_name service_defs)
qed

text \<open>
  Where the compensating delete of the commitment raises too, the exception that leaves
  the purchase is the one of the delete, not the one of the reservation, and the
  commitment stays.
\<close>

theorem rollback_failure_masks_reservation_error:
  "purchase_http example_module (service_client reservation_outage_stuck_commitment)
     (JStr ''p1'') (JStr ''EU'') 50 fresh_world =
     (Inl still_referenced,
      \<lparr>trace =
         [(CreateCapacityCommitment ''projects/p1/locations/EU'' ''FLEX'' 50,
           ACommitment \<lparr>cc_name = ''projects/p1/locations/EU/capacityCommitments/0'',
                        cc_plan = ''FLEX'', cc_slot_count = 50\<rparr>),
          (CreateReservation ''projects/p1/locations/EU''
             ''reservation-20210307-09054205-behknqtw'' 50 False, Raised unavailable),
          (DeleteCapacityCommitment ''projects/p1/locations/EU/capacityCommitments/0''
             (Retry 90 ''Exception'' 2), Raised still_referenced)],
       remote = \<lparr>svc_commitments =
                    [\<lparr>cc_name = ''projects/p1/locations/EU/capacityCommitments/0'',
                      cc_plan = ''FLEX'', cc_slot_count = 50\<rparr>],
                  svc_reservations = [], svc_assignments = []\<rparr>\<rparr>)
   \<and> still_referenced \<noteq> unavailable"
  by (simp add: purchase_defs io_defs service_defs example_reservation_name
      still_referenced_def unavailable_def)

text \<open>
  C1, as the code has it. When creating the commitment and the reservation succeeds,
  creating the assignment raises an exception \<open>e\<close> that has a \<^verbatim>\<open>message\<close> attribute,
  and both compensating deletes succeed, the purchase makes exactly five remote calls:
  the three creations, then the delete of that reservation, then the delete of that
  commitment; and it raises the same \<open>e\<close>. Every resource the trace shows created is
  deleted by a later call of the trace that succeeded.
\<close>

theorem assignment_failure_rolls_back_both:
  assumes "create_capacity_commitment client (common_location_path project_id location)
             ''FLEX'' slots (remote w) = (Inr commitment, s1)"
    and "create_reservation client (common_location_path project_id location)
           (default_reservation_name m) slots False s1 = (Inr reservation, s2)"
    and "create_assignment_rpc client (res_name reservation) ''QUERY''
           (''projects/'' @ py_str project_id) s2 = (Inl e, s3)"
    and "exn_message e = Some text"
    and "delete_reservation_rpc client (res_name reservation) s3 = (Inr (), s4)"
    and "delete_capacity_commitment client (cc_name commitment) commitment_retry s4
           = (Inr (), s5)"
  shows "purchase_http m client project_id location slots w =
           (Inl e,
            \<lparr>trace = trace w @
               [(CreateCapacityCommitment (common_location_path project_id location)
                   ''FLEX'' slots, ACommitment commitment),
                (CreateReservation (common_location_path project_id location)
                   (default_reservation_name m) slots False, AReservation reservation),
                (CreateAssignment (res_name reservation) ''QUERY''
                   (''projects/'' @ py_str project_id), Raised e),
                (DeleteReservation (res_name reservation), Empty),
                (DeleteCapacityCommitment (cc_name commitment) commitment_retry, Empty)],
             remote = s5\<rparr>)"
  using assms by (simp add: purchase_defs io_defs)

theorem assignment_failure_rolls_back_both_witness:
  "purchase_http example_module (service_client assignment_outage) (JStr ''p1'') (JStr ''EU'')
     50 fresh_world =
     (Inl unavailable,
      \<lparr>trace =
         [(CreateCapacityCommitment ''projects/p1/locations/EU'' ''FLEX'' 50,
           ACommitment \<lparr>cc_name = ''projects/p1/locations/EU/capacityCommitments/0'',
                        cc_plan = ''FLEX'', cc_slot_count = 50\<rparr>),
          (CreateReservation ''projects/p1/locations/EU''
             ''reservation-20210307-09054205-behknqtw'' 50 False,
           AReservation
             \<lparr>res_name = ''projects/p1/locations/EU/reservations/reservation-20210307-09054205-behknqtw'',
              res_slot_capacity = 50, res_ignore_idle_slots = False\<rparr>),
          (CreateAssignment
             ''projects/p1/locations/EU/reservations/reservation-20210307-09054205-behknqtw''
             ''QUERY'' ''projects/p1'', Raised unavailable),
          (DeleteReservation
             ''projects/p1/locations/EU/reservations/reservation-20210307-09054205-behknqtw'',
           Empty),
          (DeleteCapacityCommitment ''projects/p1/locations/EU/capacityCommitments/0''
             (Retry 90 ''Exception'' 2), Empty)],
       remote = empty_service\<rparr>)"
proof -
  let ?c = "\<lparr>cc_name = ''projects/p1/locations/EU/capacityCommitments/0'',
              cc_plan = ''FLEX'', cc_slot_count = 50\<rparr>"
  let ?r = "\<lparr>res_name = ''projects/p1/locations/EU/reservations/reservation-20210307-09054205-behknqtw'',
              res_slot_capacity = 50, res_ignore_idle_slots = False\<rparr>"
  let ?s1 = "\<lparr>svc_commitments = [?c], svc_reservations = [], svc_assignments = []\<rparr>"
  let ?s2 = "\<lparr>svc_commitments = [?c], svc_reservations = [?r], svc_assignments = []\<rparr>"
  have a: "create_capacity_commitment (service_client assignment_outage)
             (common_location_path (JStr ''p1'') (JStr ''EU'')) ''FLEX'' 50 (remote fresh_world)
             = (Inr ?c, ?s1)"
    by (simp add: service_defs Let_def)
  have b: "create_reservation (service_client assignment_outage)
             (common_location_path (JStr ''p1'') (JStr ''EU''))
             (default_reservation_name example_module) 50 False ?s1 = (Inr ?r, ?s2)"
    by (simp add: service_defs example_reservation_name Let_def)
  have c: "create_assignment_rpc (service_client assignment_outage) (res_name ?r) ''QUERY''
             (''projects/'' @ py_str (JStr ''p1'')) ?s2 = (Inl unavailable, ?s2)"
    by (simp add: service_defs)
  have m: "exn_message unavailable = Some ''Service unavailable''"
    by (simp add: unavailable_def api_error_def)
  have d: "delete_reservation_rpc (service_client assignment_outage) (res_name ?r) ?s2
             = (Inr (), ?s1)"
    by (simp add: service_defs)
  have e: "delete_capacity_commitment (service_client assignment_outage) (cc_name ?c)
             commitment_retry ?s1 = (Inr (), empty_service)"
    by (simp add: service_defs)
  show ?thesis
    using assignment_failure_rolls_back_both [OF a b c m d e]
    by (simp add: example_reservation_name service_defs)
qed

text \<open>
  Where the compensating delete of the reservation raises, the commitment is still
  deleted, the exception that leaves the purchase is the one of that delete, and the
  reservation stays.
\<close>

theorem rollback_failure_masks_assignment_error:
  "purchase_http example_module (service_client assignment_outage_stuck_reservation)
     (JStr ''p1'') (JStr ''EU'') 50 fresh_world =
     (Inl still_referenced,
      \<lparr>trace =
         [(CreateCapacityCommitment ''projects/p1/locations/EU'' ''FLEX'' 50,
           ACommitment \<lparr>cc_name = ''projects/p1/locations/EU/capacityCommitments/0'',
                        cc_plan = ''FLEX'', cc_slot_count = 50\<rparr>),
          (CreateReservation ''projects/p1/locations/EU''
             ''reservation-20210307-09054205-behknqtw'' 50 False,
           AReservation
             \<lparr>res_name = ''projects/p1/locations/EU/reservations/reservation-20210307-09054205-behknqtw'',
              res_slot_capacity = 50, res_ignore_idle_slots = False\<rparr>),
          (CreateAssignment
             ''projects/p1/locations/EU/reservations/reservation-20210307-09054205-behknqtw''
             ''QUERY'' ''projects/p1'', Raised unavailable),
          (DeleteReservation
             ''projects/p1/locations/EU/reservations/reservation-20210307-09054205-behknqtw'',
           Raised still_referenced),
          (DeleteCapacityCommitment ''projects/p1/locations/EU/capacityCommitments/0''
             (Retry 90 ''Exception'' 2), Empty)],
       remote = \<lparr>svc_commitments = [],
                  svc_reservations =
                    [\<lparr>res_name = ''projects/p1/locations/EU/reservations/reservation-20210307-09054205-behknqtw'',
                      res_slot_capacity = 50, res_ignore_idle_slots = False\<rparr>],
                  svc_assignments = []\<rparr>\<rparr>)
   \<and> still_referenced \<noteq> unavailable"
  by (simp add: purchase_defs io_defs service_defs example_reservation_name
      still_referenced_def unavailable_def)

text \<open>
  The handler of \<^verbatim>\<open>create_reservation_and_assignment\<close> reads \<^verbatim>\<open>e.message\<close> before it
  deletes the reservation. For an exception without that attribute the read raises an
  AttributeError: the reservation is not deleted, the commitment is, and the
  AttributeError is what leaves the purchase.
\<close>

lemma reservation_left_behind_without_message:
  "purchase_http example_module (service_client assignment_token_expired)
     (JStr ''p1'') (JStr ''EU'') 50 fresh_world =
     (Inl (Exn ''AttributeError'' None
             ([CHR 0x27] @ ''RefreshError'' @ [CHR 0x27] @ '' object has no attribute ''
                @ [CHR 0x27] @ ''message'' @ [CHR 0x27])),
      \<lparr>trace =
         [(CreateCapacityCommitment ''projects/p1/locations/EU'' ''FLEX'' 50,
           ACommitment \<lparr>cc_name = ''projects/p1/locations/EU/capacityCommitments/0'',
                        cc_plan = ''FLEX'', cc_slot_count = 50\<rparr>),
          (CreateReservation ''projects/p1/locations/EU''
             ''reservation-20210307-09054205-behknqtw'' 50 False,
           AReservation
             \<lparr>res_name = ''projects/p1/locations/EU/reservations/reservation-20210307-09054205-behknqtw'',
              res_slot_capacity = 50, res_ignore_idle_slots = False\<rparr>),
          (CreateAssignment
             ''projects/p1/locations/EU/reservations/reservation-20210307-09054205-behknqtw''
             ''QUERY'' ''projects/p1'', Raised token_expired),
          (DeleteCapacityCommitment ''projects/p1/locations/EU/capacityCommitments/0''
             (Retry 90 ''Exception'' 2), Empty)],
       remote = \<lparr>svc_commitments = [],
                  svc_reservations =
                    [\<lparr>res_name = ''projects/p1/locations/EU/reservations/reservation-20210307-09054205-behknqtw'',
                      res_slot_capacity = 50, res_ignore_idle_slots = False\<rparr>],
                  svc_assignments = []\<rparr>\<rparr>)"
  by (simp add: purchase_defs io_defs service_defs example_reservation_name
      token_expired_def)

text \<open>
  C3. The purchase has no clock and no random generator to draw from: whatever the call,
  a reservation it asks the service to create carries the name bound when the module was
  loaded. The remote calls a purchase adds to the trace hold at most one
  CreateReservation, and its reservation id is \<open>default_reservation_name m\<close>.
\<close>

theorem reservation_name_bound_at_import:
  "\<exists>evs. trace (snd (purchase_http m client project_id location slots w)) = trace w @ evs
         \<and> (reservation_ids evs = [] \<or> reservation_ids evs = [default_reservation_name m])"
  by (auto simp add: purchase_defs io_defs reservation_ids_def List.map_filter_simps
      split: prod.splits sum.splits option.splits)

text \<open>
  Two purchases in one process: the first succeeds; the second asks for a reservation of
  the same name, the service refuses it as existing, the second commitment is rolled back
  and the exception leaves the purchase.
\<close>

lemma first_purchase_succeeds:
  "purchase_http example_module (service_client no_fault) (JStr ''p1'') (JStr ''EU'') 50
     fresh_world =
     (Inr \<lparr>status = 200,
           body = [(''message'', Text ''Successfully purchased commitment for 50 slots in project p1 located in EU''),
                   (''commitment'', Text ''projects/p1/locations/EU/capacityCommitments/0''),
                   (''reservation'', Text ''projects/p1/locations/EU/reservations/reservation-20210307-09054205-behknqtw''),
                   (''assignment'', Text ''projects/p1/locations/EU/reservations/reservation-20210307-09054205-behknqtw/assignments/0''),
                   (''severity'', Text ''info'')]\<rparr>,
      after_first_purchase)"
  by (simp add: purchase_defs io_defs service_defs example_reservation_name
      after_first_purchase_def show_int_def)

theorem second_purchase_reuses_reservation_name:
  "purchase_http example_module (service_client no_fault) (JStr ''p1'') (JStr ''EU'') 50
     after_first_purchase =
     (Inl (api_error ''409'' ''Already exists''),
      \<lparr>trace = trace after_first_purchase @
         [(CreateCapacityCommitment ''projects/p1/locations/EU'' ''FLEX'' 50,
           ACommitment \<lparr>cc_name = ''projects/p1/locations/EU/capacityCommitments/1'',
                        cc_plan = ''FLEX'', cc_slot_count = 50\<rparr>),
          (CreateReservation ''projects/p1/locations/EU''
             ''reservation-20210307-09054205-behknqtw'' 50 False,
           Raised (api_error ''409'' ''Already exists'')),
          (DeleteCapacityCommitment ''projects/p1/locations/EU/capacityCommitments/1''
             (Retry 90 ''Exception'' 2), Empty)],
       remote = remote after_first_purchase\<rparr>)
   \<and> reservation_ids (trace after_first_purchase)
       = [''reservation-20210307-09054205-behknqtw'']"
  by (simp add: purchase_defs io_defs service_defs example_reservation_name
      after_first_purchase_def reservation_ids_def List.map_filter_simps)

section \<open>The report\<close>

lemma report_reservations_lists:
  assumes "report_reservations client rs log w = (res, w')"
  shows "\<exists>evs. trace w' = trace w @ evs
           \<and> (\<forall>ev\<in>set evs. is_listing (fst ev))
           \<and> (listings_pure client \<longrightarrow> remote w' = remote w)
           \<and> (\<forall>log'. res = Inr log' \<longrightarrow>
                 (\<exists>ass. length ass = length rs
                    \<and> evs = map2 (\<lambda>r as. (ListAssignments (res_name r), Assignments as)) rs ass
                    \<and> log' = log @ concat (map2 report_lines rs ass)))"
  using assms
proof (induction rs arbitrary: log w)
  case Nil
  then show ?case by (auto simp add: io_return_def)
next
  case (Cons r rest)
  obtain a s' where rpc: "list_assignments client (res_name r) (remote w) = (a, s')"
    by (cases "list_assignments client (res_name r) (remote w)")
  have pure: "listings_pure client \<Longrightarrow> s' = remote w"
    using rpc unfolding listings_pure_def by (metis snd_conv)
  show ?case
  proof (cases a)
    case (Inl e)
    with rpc Cons.prems have "res = Inl e"
      and "w' = \<lparr>trace = trace w @ [(ListAssignments (res_name r), Raised e)], remote = s'\<rparr>"
      by (simp_all add: get_assignments_def io_defs)
    with pure show ?thesis by simp
  next
    case (Inr as)
    let ?w1 = "\<lparr>trace = trace w @ [(ListAssignments (res_name r), Assignments as)],
                remote = s'\<rparr>"
    let ?log1 = "log @ [''Reservation '' @ res_name r]
                     @ map (\<lambda>assignment. ''Assignment '' @ asg_name assignment) as"
    from rpc Inr Cons.prems have "report_reservations client rest ?log1 ?w1 = (res, w')"
      by (simp add: get_assignments_def io_defs)
    from Cons.IH [OF this] obtain evs where
      t: "trace w' = trace ?w1 @ evs" and l: "\<forall>ev\<in>set evs. is_listing (fst ev)"
      and p: "listings_pure client \<longrightarrow> remote w' = remote ?w1"
      and g: "\<forall>log'. res = Inr log' \<longrightarrow>
                 (\<exists>ass. length ass = length rest
                    \<and> evs = map2 (\<lambda>r as. (ListAssignments (res_name r), Assignments as)) rest ass
                    \<and> log' = ?log1 @ concat (map2 report_lines rest ass))"
      by blast
    have "\<exists>ass. length ass = length (r # rest)
            \<and> (ListAssignments (res_name r), Assignments as) # evs
                 = map2 (\<lambda>r as. (ListAssignments (res_name r), Assignments as)) (r # rest) ass
            \<and> log' = log @ concat (map2 report_lines (r # rest) ass)"
      if "res = Inr log'" for log'
    proof -
      from g that obtain ass where "length ass = length rest"
        and "evs = map2 (\<lambda>r as. (ListAssignments (res_name r), Assignments as)) rest ass"
        and "log' = ?log1 @ concat (map2 report_lines rest ass)"
        by blast
      then show ?thesis
        by (intro exI [of _ "as # ass"]) (simp add: report_lines_def)
    qed
    with t l p pure show ?thesis
      by (intro exI [of _ "(ListAssignments (res_name r), Assignments as) # evs"]) simp
  qed
qed

text \<open>
  C7. Whatever the report returns, every remote call it has added to the trace is a
  listing, so no create and no delete is called, and with a client whose listings leave
  the remote state alone that state is unchanged. When it returns a log, the calls are: list
  reservations, list the assignments of each reservation in the order listed, list
  commitments; and the log has, in those orders, a line for each reservation followed by
  a line for each of its assignments, then a line for each commitment.
\<close>

theorem report_only_lists:
  assumes "report client project_id location w = (res, w')"
  shows "\<exists>evs. trace w' = trace w @ evs
           \<and> (\<forall>ev\<in>set evs. is_listing (fst ev))
           \<and> (listings_pure client \<longrightarrow> remote w' = remote w)
           \<and> (\<forall>log. res = Inr log \<longrightarrow>
                 (\<exists>rs ass cs. length ass = length rs
                    \<and> evs = (ListReservations (common_location_path project_id location),
                              Reservations rs)
                            # map2 (\<lambda>r as. (ListAssignments (res_name r), Assignments as)) rs ass
                            @ [(ListCapacityCommitments (common_location_path project_id location),
                                Commitments cs)]
                    \<and> log = concat (map2 report_lines rs ass)
                              @ map (\<lambda>c. ''Commitment '' @ cc_name c) cs))"
proof -
  let ?scope = "common_location_path project_id location"
  obtain a s1 where lr: "list_reservations client ?scope (remote w) = (a, s1)"
    by (cases "list_reservations client ?scope (remote w)")
  have pure1: "listings_pure client \<Longrightarrow> s1 = remote w"
    using lr unfolding listings_pure_def by (metis snd_conv)
  show ?thesis
  proof (cases a)
    case (Inl e)
    with lr assms have "res = Inl e"
      and "w' = \<lparr>trace = trace w @ [(ListReservations ?scope, Raised e)], remote = s1\<rparr>"
      by (simp_all add: report_def get_reservations_def io_defs Let_def)
    with pure1 show ?thesis by simp
  next
    case (Inr rs)
    let ?w1 = "\<lparr>trace = trace w @ [(ListReservations ?scope, Reservations rs)], remote = s1\<rparr>"
    obtain res2 w2 where rr: "report_reservations client rs [] ?w1 = (res2, w2)"
      by (cases "report_reservations client rs [] ?w1")
    from report_reservations_lists [OF rr] obtain evs where
      t: "trace w2 = trace ?w1 @ evs" and l: "\<forall>ev\<in>set evs. is_listing (fst ev)"
      and p: "listings_pure client \<longrightarrow> remote w2 = remote ?w1"
      and g: "\<forall>log'. res2 = Inr log' \<longrightarrow>
                 (\<exists>ass. length ass = length rs
                    \<and> evs = map2 (\<lambda>r as. (ListAssignments (res_name r), Assignments as)) rs ass
                    \<and> log' = [] @ concat (map2 report_lines rs ass))"
      by blast
    show ?thesis
    proof (cases res2)
      case e: (Inl e)
      with lr Inr rr assms have "res = Inl e" and "w' = w2"
        by (simp_all add: report_def get_reservations_def io_defs Let_def)
      with t l p pure1 show ?thesis
        by (intro exI [of _ "(ListReservations ?scope, Reservations rs) # evs"]) simp
    next
      case log1: (Inr log1)
      with g obtain ass where la: "length ass = length rs"
        and ev: "evs = map2 (\<lambda>r as. (ListAssignments (res_name r), Assignments as)) rs ass"
        and lg: "log1 = concat (map2 report_lines rs ass)"
        by auto
      obtain b s3 where lc: "list_capacity_commitments client ?scope (remote w2) = (b, s3)"
        by (cases "list_capacity_commitments client ?scope (remote w2)")
      have pure3: "listings_pure client \<Longrightarrow> s3 = remote w2"
        using lc unfolding listings_pure_def by (metis snd_conv)
      let ?reply = "case b of Inl e \<Rightarrow> Raised e | Inr cs \<Rightarrow> Commitments cs"
      from lr Inr rr log1 lc assms
      have w': "w' = \<lparr>trace = trace w2 @ [(ListCapacityCommitments ?scope, ?reply)],
                       remote = s3\<rparr>"
        and res: "res = (case b of Inl e \<Rightarrow> Inl e
                         | Inr cs \<Rightarrow> Inr (log1 @ map (\<lambda>c. ''Commitment '' @ cc_name c) cs))"
        by (auto simp add: report_def get_reservations_def get_commitments_def io_defs Let_def
            split: sum.splits)
      let ?evs = "(ListReservations ?scope, Reservations rs) # evs
                    @ [(ListCapacityCommitments ?scope, ?reply)]"
      have 1: "trace w' = trace w @ ?evs" using w' t by simp
      have 2: "\<forall>ev\<in>set ?evs. is_listing (fst ev)" using l by simp
      have 3: "listings_pure client \<longrightarrow> remote w' = remote w"
        using w' p pure1 pure3 by simp
      have 4: "\<exists>rs ass cs. length ass = length rs
                 \<and> ?evs = (ListReservations ?scope, Reservations rs)
                            # map2 (\<lambda>r as. (ListAssignments (res_name r), Assignments as)) rs ass
                            @ [(ListCapacityCommitments ?scope, Commitments cs)]
                 \<and> log = concat (map2 report_lines rs ass)
                           @ map (\<lambda>c. ''Commitment '' @ cc_name c) cs"
        if "res = Inr log" for log
      proof -
        from that res obtain cs where "b = Inr cs"
          and "log = log1 @ map (\<lambda>c. ''Commitment '' @ cc_name c) cs"
          by (cases b) simp_all
        with la ev lg show ?thesis
          by (intro exI [of _ rs] exI [of _ ass] exI [of _ cs]) simp
      qed
      from 1 2 3 4 show ?thesis by blast
    qed
  qed
qed

lemma service_listings_pure: "listings_pure (service_client fault)"
  by (simp add: listings_pure_def service_ops faulty_def split: option.splits)

lemma report_of_stocked_service:
  "report (service_client no_fault) (JStr ''p1'') (JStr ''EU'') stocked_world =
     (Inr [''Reservation r1'', ''Assignment r1/a1'', ''Assignment r1/a2'',
           ''Reservation r2'', ''Assignment r2/a1'', ''Assignment r2/a2'',
           ''Commitment c1'', ''Commitment c2'', ''Commitment c3''],
      \<lparr>trace =
         [(ListReservations ''projects/p1/locations/EU'',
           Reservations (svc_reservations stocked_service)),
          (ListAssignments ''r1'',
           Assignments (map snd (take 2 (svc_assignments stocked_service)))),
          (ListAssignments ''r2'',
           Assignments (map snd (drop 2 (svc_assignments stocked_service)))),
          (ListCapacityCommitments ''projects/p1/locations/EU'',
           Commitments (svc_commitments stocked_service))],
       remote = stocked_service\<rparr>)"
  by (simp add: report_def get_reservations_def get_commitments_def get_assignments_def
      io_defs service_ops faulty_def no_fault_def common_location_path_def
      stocked_world_def stocked_service_def Let_def)

theorem report_only_lists_witness:
  "fst (report (service_client no_fault) (JStr ''p1'') (JStr ''EU'') stocked_world) =
     Inr [''Reservation r1'', ''Assignment r1/a1'', ''Assignment r1/a2'',
          ''Reservation r2'', ''Assignment r2/a1'', ''Assignment r2/a2'',
          ''Commitment c1'', ''Commitment c2'', ''Commitment c3'']
   \<and> listings_pure (service_client no_fault)
   \<and> remote (snd (report (service_client no_fault) (JStr ''p1'') (JStr ''EU'') stocked_world))
       = remote stocked_world"
proof -
  obtain res w' where
    run: "report (service_client no_fault) (JStr ''p1'') (JStr ''EU'') stocked_world = (res, w')"
    by (cases "report (service_client no_fault) (JStr ''p1'') (JStr ''EU'') stocked_world")
  from report_only_lists [OF run] service_listings_pure [of no_fault]
  have "remote w' = remote stocked_world" by blast
  with run report_of_stocked_service service_listings_pure [of no_fault]
  show ?thesis by simp
qed

section \<open>The cleanup\<close>

lemma cleanup_assignments_ok:
  assumes "cleanup_assignments client as log w = (Inr log', w')"
  shows "trace w' = trace w @ map (\<lambda>a. (DeleteAssignment (asg_name a), Empty)) as
         \<and> log' = log @ map (\<lambda>a. ''Deleted assignment '' @ asg_name a) as"
  using assms
proof (induction as arbitrary: log w)
  case Nil
  then show ?case by (simp add: io_return_def)
next
  case (Cons a rest)
  obtain r s' where rpc: "delete_assignment_rpc client (asg_name a) (remote w) = (r, s')"
    by (cases "delete_assignment_rpc client (asg_name a) (remote w)")
  show ?case
  proof (cases r)
    case (Inl e)
    with rpc Cons.prems show ?thesis by (simp add: delete_assignment_def io_defs)
  next
    case (Inr u)
    let ?w1 = "\<lparr>trace = trace w @ [(DeleteAssignment (asg_name a), Empty)], remote = s'\<rparr>"
    from rpc Inr Cons.prems
    have "cleanup_assignments client rest (log @ [''Deleted assignment '' @ asg_name a]) ?w1
            = (Inr log', w')"
      by (simp add: delete_assignment_def io_defs)
    from Cons.IH [OF this] show ?thesis by simp
  qed
qed

lemma cleanup_commitments_ok:
  assumes "cleanup_commitments client cs log w = (Inr log', w')"
  shows "trace w' = trace w
           @ map (\<lambda>c. (DeleteCapacityCommitment (cc_name c) commitment_retry, Empty)) cs
         \<and> log' = log @ map (\<lambda>c. ''Deleted commitment '' @ cc_name c) cs"
  using assms
proof (induction cs arbitrary: log w)
  case Nil
  then show ?case by (simp add: io_return_def)
next
  case (Cons c rest)
  obtain r s' where
    rpc: "delete_capacity_commitment client (cc_name c) commitment_retry (remote w) = (r, s')"
    by (cases "delete_capacity_commitment client (cc_name c) commitment_retry (remote w)")
  show ?case
  proof (cases r)
    case (Inl e)
    with rpc Cons.prems show ?thesis by (simp add: delete_commitment_def io_defs)
  next
    case (Inr u)
    let ?w1 = "\<lparr>trace = trace w
                  @ [(DeleteCapacityCommitment (cc_name c) commitment_retry, Empty)],
                remote = s'\<rparr>"
    from rpc Inr Cons.prems
    have "cleanup_commitments client rest (log @ [''Deleted commitment '' @ cc_name c]) ?w1
            = (Inr log', w')"
      by (simp add: delete_commitment_def io_defs)
    from Cons.IH [OF this] show ?thesis by simp
  qed
qed

lemma cleanup_reservations_ok:
  assumes "cleanup_reservations client rs log w = (Inr log', w')"
  shows "\<exists>ass. length ass = length rs
           \<and> trace w' = trace w @ concat (map2 teardown_block rs ass)
           \<and> log' = log @ concat (map2 teardown_lines rs ass)"
  using assms
proof (induction rs arbitrary: log w)
  case Nil
  then show ?case by (simp add: io_return_def)
next
  case (Cons r rest)
  obtain a s1 where la: "list_assignments client (res_name r) (remote w) = (a, s1)"
    by (cases "list_assignments client (res_name r) (remote w)")
  show ?case
  proof (cases a)
    case (Inl e)
    with la Cons.prems show ?thesis by (simp add: get_assignments_def io_defs)
  next
    case (Inr as)
    let ?w1 = "\<lparr>trace = trace w @ [(ListAssignments (res_name r), Assignments as)],
                remote = s1\<rparr>"
    obtain res2 w2 where ca: "cleanup_assignments client as log ?w1 = (res2, w2)"
      by (cases "cleanup_assignments client as log ?w1")
    show ?thesis
    proof (cases res2)
      case e: (Inl e)
      with la Inr ca Cons.prems show ?thesis by (simp add: get_assignments_def io_defs)
    next
      case log1: (Inr log1)
      from cleanup_assignments_ok [OF ca [unfolded log1]]
      have t2: "trace w2 = trace ?w1 @ map (\<lambda>a. (DeleteAssignment (asg_name a), Empty)) as"
        and l1: "log1 = log @ map (\<lambda>a. ''Deleted assignment '' @ asg_name a) as"
        by simp_all
      obtain d s3 where dr: "delete_reservation_rpc client (res_name r) (remote w2) = (d, s3)"
        by (cases "delete_reservation_rpc client (res_name r) (remote w2)")
      show ?thesis
      proof (cases d)
        case e: (Inl e)
        with la Inr ca log1 dr Cons.prems show ?thesis
          by (simp add: get_assignments_def delete_reservation_def io_defs)
      next
        case u: (Inr u)
        let ?w3 = "\<lparr>trace = trace w2 @ [(DeleteReservation (res_name r), Empty)],
                    remote = s3\<rparr>"
        from la Inr ca log1 dr u Cons.prems
        have "cleanup_reservations client rest (log1 @ [''Deleted reservation '' @ res_name r])
                ?w3 = (Inr log', w')"
          by (simp add: get_assignments_def delete_reservation_def io_defs)
        from Cons.IH [OF this] obtain ass where "length ass = length rest"
          and "trace w' = trace ?w3 @ concat (map2 teardown_block rest ass)"
          and "log' = (log1 @ [''Deleted reservation '' @ res_name r])
                        @ concat (map2 teardown_lines rest ass)"
          by blast
        with t2 l1 show ?thesis
          by (intro exI [of _ "as # ass"]) (simp add: teardown_block_def teardown_lines_def)
      qed
    qed
  qed
qed

text \<open>Counting the deletes of a trace.\<close>

lemma count_calls_append: "count_calls p (xs @ ys) = count_calls p xs + count_calls p ys"
  by (simp add: count_calls_def)

lemma count_calls_Cons:
  "count_calls p (x # xs) = (if p (fst x) then 1 else 0) + count_calls p xs"
  by (simp add: count_calls_def)

lemma count_calls_Nil: "count_calls p [] = 0"
  by (simp add: count_calls_def)

lemma count_block:
  "count_calls is_assignment_delete (teardown_block r as) = length as"
  "count_calls is_reservation_delete (teardown_block r as) = 1"
  "count_calls is_commitment_delete (teardown_block r as) = 0"
  by (simp_all add: teardown_block_def count_calls_def filter_map comp_def)

lemma count_blocks:
  assumes "length ass = length rs"
  shows "count_calls is_assignment_delete (concat (map2 teardown_block rs ass))
           = sum_list (map length ass)"
    and "count_calls is_reservation_delete (concat (map2 teardown_block rs ass)) = length rs"
    and "count_calls is_commitment_delete (concat (map2 teardown_block rs ass)) = 0"
  using assms
  by (induction ass rs rule: list_induct2)
     (simp_all add: count_calls_Nil count_calls_append count_block)

lemma count_commitment_deletes:
  "count_calls is_assignment_delete
     (map (\<lambda>c. (DeleteCapacityCommitment (cc_name c) commitment_retry, Empty)) cs) = 0"
  "count_calls is_reservation_delete
     (map (\<lambda>c. (DeleteCapacityCommitment (cc_name c) commitment_retry, Empty)) cs) = 0"
  "count_calls is_commitment_delete
     (map (\<lambda>c. (DeleteCapacityCommitment (cc_name c) commitment_retry, Empty)) cs) = length cs"
  by (simp_all add: count_calls_def filter_map comp_def)

lemma count_teardown_trace:
  assumes "length ass = length rs"
  shows "count_calls is_assignment_delete (teardown_trace scope rs ass cs)
           = sum_list (map length ass)"
    and "count_calls is_reservation_delete (teardown_trace scope rs ass cs) = length rs"
    and "count_calls is_commitment_delete (teardown_trace scope rs ass cs) = length cs"
  using assms
  by (simp_all add: teardown_trace_def count_calls_Cons count_calls_append count_blocks
      count_commitment_deletes)

lemma sum_list_all_equal:
  "\<forall>as\<in>set ass. length as = A \<Longrightarrow> sum_list (map length ass) = length ass * A"
  by (induction ass) simp_all

text \<open>
  C4, as the code has it. A cleanup in which no remote call fails makes exactly the calls
  of \<open>teardown_trace\<close>: it lists the reservations; for each reservation, in the order
  listed, it lists the assignments, deletes each of them and then deletes the
  reservation; after the last reservation it lists the commitments and deletes each of
  them. So the deletes of the assignments of a reservation come before the delete of that
  reservation, and every reservation delete comes before every commitment delete. With
  \<open>N\<close> reservations of \<open>A\<close> assignments each and \<open>M\<close> commitments listed, that is
  \<open>N * A\<close> assignment deletes, \<open>N\<close> reservation deletes and \<open>M\<close> commitment deletes.
\<close>

theorem cleanup_deletes_in_dependency_order:
  assumes "cleanup client project_id location w = (Inr log, w')"
  shows "\<exists>rs ass cs. length ass = length rs
           \<and> trace w' = trace w
                @ teardown_trace (common_location_path project_id location) rs ass cs
           \<and> log = teardown_log rs ass cs
           \<and> (\<forall>A. (\<forall>as\<in>set ass. length as = A) \<longrightarrow>
                 count_calls is_assignment_delete
                   (teardown_trace (common_location_path project_id location) rs ass cs)
                   = length rs * A)
           \<and> count_calls is_reservation_delete
                (teardown_trace (common_location_path project_id location) rs ass cs)
                = length rs
           \<and> count_calls is_commitment_delete
                (teardown_trace (common_location_path project_id location) rs ass cs)
                = length cs"
proof -
  let ?scope = "common_location_path project_id location"
  obtain a s1 where lr: "list_reservations client ?scope (remote w) = (a, s1)"
    by (cases "list_reservations client ?scope (remote w)")
  show ?thesis
  proof (cases a)
    case (Inl e)
    with lr assms show ?thesis
      by (simp add: cleanup_def get_reservations_def io_defs Let_def)
  next
    case (Inr rs)
    let ?w1 = "\<lparr>trace = trace w @ [(ListReservations ?scope, Reservations rs)], remote = s1\<rparr>"
    obtain res2 w2 where cr: "cleanup_reservations client rs [] ?w1 = (res2, w2)"
      by (cases "cleanup_reservations client rs [] ?w1")
    show ?thesis
    proof (cases res2)
      case (Inl e)
      with lr Inr cr assms show ?thesis
        by (simp add: cleanup_def get_reservations_def io_defs Let_def)
    next
      case log1: (Inr log1)
      from cleanup_reservations_ok [OF cr [unfolded log1]] obtain ass where
        la: "length ass = length rs"
        and t2: "trace w2 = trace ?w1 @ concat (map2 teardown_block rs ass)"
        and l1: "log1 = concat (map2 teardown_lines rs ass)"
        by auto
      obtain b s3 where lc: "list_capacity_commitments client ?scope (remote w2) = (b, s3)"
        by (cases "list_capacity_commitments client ?scope (remote w2)")
      show ?thesis
      proof (cases b)
        case (Inl e)
        with lr Inr cr log1 lc assms show ?thesis
          by (simp add: cleanup_def get_reservations_def get_commitments_def io_defs Let_def)
      next
        case cs: (Inr cs)
        let ?w3 = "\<lparr>trace = trace w2 @ [(ListCapacityCommitments ?scope, Commitments cs)],
                    remote = s3\<rparr>"
        from lr Inr cr log1 lc cs assms
        have "cleanup_commitments client cs log1 ?w3 = (Inr log, w')"
          by (simp add: cleanup_def get_reservations_def get_commitments_def io_defs Let_def)
        from cleanup_commitments_ok [OF this]
        have t4: "trace w' = trace ?w3
                    @ map (\<lambda>c. (DeleteCapacityCommitment (cc_name c) commitment_retry, Empty)) cs"
          and l4: "log = log1 @ map (\<lambda>c. ''Deleted commitment '' @ cc_name c) cs"
          by simp_all
        have 1: "trace w' = trace w @ teardown_trace ?scope rs ass cs"
          using t4 t2 by (simp add: teardown_trace_def)
        have 2: "log = teardown_log rs ass cs"
          using l4 l1 by (simp add: teardown_log_def)
        have 3: "\<forall>A. (\<forall>as\<in>set ass. length as = A) \<longrightarrow>
                   count_calls is_assignment_delete (teardown_trace ?scope rs ass cs)
                     = length rs * A"
          using la sum_list_all_equal [of ass] by (auto simp add: count_teardown_trace)
        have 4: "count_calls is_reservation_delete (teardown_trace ?scope rs ass cs)
                   = length rs"
          and 5: "count_calls is_commitment_delete (teardown_trace ?scope rs ass cs)
                    = length cs"
          using la by (simp_all add: count_teardown_trace)
        from la 1 2 3 4 5 show ?thesis by blast
      qed
    qed
  qed
qed

lemmas cleanup_defs = cleanup_def get_reservations_def get_commitments_def
  get_assignments_def delete_assignment_def delete_reservation_def delete_commitment_def
  io_defs service_ops faulty_def no_fault_def common_location_path_def stocked_world_def
  stocked_service_def commitment_retry_def Let_def

lemma cleanup_of_stocked_service:
  "cleanup (service_client no_fault) (JStr ''p1'') (JStr ''EU'') stocked_world =
     (Inr [''Deleted assignment r1/a1'', ''Deleted assignment r1/a2'',
           ''Deleted reservation r1'',
           ''Deleted assignment r2/a1'', ''Deleted assignment r2/a2'',
           ''Deleted reservation r2'',
           ''Deleted commitment c1'', ''Deleted commitment c2'', ''Deleted commitment c3''],
      \<lparr>trace =
         [(ListReservations ''projects/p1/locations/EU'',
           Reservations (svc_reservations stocked_service)),
          (ListAssignments ''r1'',
           Assignments (map snd (take 2 (svc_assignments stocked_service)))),
          (DeleteAssignment ''r1/a1'', Empty),
          (DeleteAssignment ''r1/a2'', Empty),
          (DeleteReservation ''r1'', Empty),
          (ListAssignments ''r2'',
           Assignments (map snd (drop 2 (svc_assignments stocked_service)))),
          (DeleteAssignment ''r2/a1'', Empty),
          (DeleteAssignment ''r2/a2'', Empty),
          (DeleteReservation ''r2'', Empty),
          (ListCapacityCommitments ''projects/p1/locations/EU'',
           Commitments (svc_commitments stocked_service)),
          (DeleteCapacityCommitment ''c1'' (Retry 90 ''Exception'' 2), Empty),
          (DeleteCapacityCommitment ''c2'' (Retry 90 ''Exception'' 2), Empty),
          (DeleteCapacityCommitment ''c3'' (Retry 90 ''Exception'' 2), Empty)],
       remote = empty_service\<rparr>)"
  by (simp add: cleanup_defs empty_service_def)

theorem cleanup_deletes_in_dependency_order_witness:
  "fst (cleanup (service_client no_fault) (JStr ''p1'') (JStr ''EU'') stocked_world) =
     Inr [''Deleted assignment r1/a1'', ''Deleted assignment r1/a2'',
          ''Deleted reservation r1'',
          ''Deleted assignment r2/a1'', ''Deleted assignment r2/a2'',
          ''Deleted reservation r2'',
          ''Deleted commitment c1'', ''Deleted commitment c2'', ''Deleted commitment c3'']
   \<and> remote (snd (cleanup (service_client no_fault) (JStr ''p1'') (JStr ''EU'') stocked_world))
       = empty_service
   \<and> (\<exists>rs ass cs. length ass = length rs
         \<and> trace (snd (cleanup (service_client no_fault) (JStr ''p1'') (JStr ''EU'')
                          stocked_world))
             = trace stocked_world
                 @ teardown_trace (common_location_path (JStr ''p1'') (JStr ''EU'')) rs ass cs
         \<and> count_calls is_reservation_delete
              (teardown_trace (common_location_path (JStr ''p1'') (JStr ''EU'')) rs ass cs)
              = length rs
         \<and> count_calls is_commitment_delete
              (teardown_trace (common_location_path (JStr ''p1'') (JStr ''EU'')) rs ass cs)
              = length cs)"
proof -
  let ?run = "cleanup (service_client no_fault) (JStr ''p1'') (JStr ''EU'') stocked_world"
  note run = cleanup_of_stocked_service
  have "?run = (Inr (projr (fst ?run)), snd ?run)"
    by (simp add: run)
  from cleanup_deletes_in_dependency_order [OF this]
  have "\<exists>rs ass cs. length ass = length rs
         \<and> trace (snd ?run)
             = trace stocked_world
                 @ teardown_trace (common_location_path (JStr ''p1'') (JStr ''EU'')) rs ass cs
         \<and> count_calls is_reservation_delete
              (teardown_trace (common_location_path (JStr ''p1'') (JStr ''EU'')) rs ass cs)
              = length rs
         \<and> count_calls is_commitment_delete
              (teardown_trace (common_location_path (JStr ''p1'') (JStr ''EU'')) rs ass cs)
              = length cs"
    by blast
  moreover have "fst ?run =
     Inr [''Deleted assignment r1/a1'', ''Deleted assignment r1/a2'',
          ''Deleted reservation r1'',
          ''Deleted assignment r2/a1'', ''Deleted assignment r2/a2'',
          ''Deleted reservation r2'',
          ''Deleted commitment c1'', ''Deleted commitment c2'', ''Deleted commitment c3'']"
    by (simp add: run)
  moreover have "remote (snd ?run) = empty_service"
    by (simp add: run)
  ultimately show ?thesis by blast
qed

text \<open>
  A delete that raises ends the cleanup there: on the scope with two reservations of two
  assignments each and three commitments, with assignment deletes failing, one assignment
  delete is called, no reservation delete and no commitment delete, and nothing is
  deleted.
\<close>

theorem cleanup_stops_at_first_failure:
  "cleanup (service_client assignment_delete_outage) (JStr ''p1'') (JStr ''EU'') stocked_world =
     (Inl unavailable,
      \<lparr>trace =
         [(ListReservations ''projects/p1/locations/EU'',
           Reservations (svc_reservations stocked_service)),
          (ListAssignments ''r1'',
           Assignments (map snd (take 2 (svc_assignments stocked_service)))),
          (DeleteAssignment ''r1/a1'', Raised unavailable)],
       remote = stocked_service\<rparr>)
   \<and> length (svc_reservations stocked_service) = 2
   \<and> length (svc_commitments stocked_service) = 3
   \<and> count_calls is_assignment_delete
        (trace (snd (cleanup (service_client assignment_delete_outage) (JStr ''p1'')
                       (JStr ''EU'') stocked_world))) = 1
   \<and> count_calls is_reservation_delete
        (trace (snd (cleanup (service_client assignment_delete_outage) (JStr ''p1'')
                       (JStr ''EU'') stocked_world))) = 0
   \<and> count_calls is_commitment_delete
        (trace (snd (cleanup (service_client assignment_delete_outage) (JStr ''p1'')
                       (JStr ''EU'') stocked_world))) = 0"
  by (simp add: cleanup_defs count_calls_def)

section \<open>The retry argument\<close>

text \<open>
  \<^verbatim>\<open>delete_commitment\<close> makes one call of the client, and passes it
  \<^verbatim>\<open>Retry(deadline=90, predicate=Exception, maximum=2)\<close>; what the client does with
  that argument is inside the client. The other methods are called with a request only.
\<close>

lemma delete_commitment_call:
  "\<exists>reply. trace (snd (delete_commitment client name w))
             = trace w @ [(DeleteCapacityCommitment name (Retry 90 ''Exception'' 2), reply)]"
  by (simp add: delete_commitment_def commitment_retry_def io_defs split: prod.splits sum.splits)

end
